theory Spec2Isabelle
  imports Main "HOL-Library.Word"
begin

section \<open>The notebook\<close>

text \<open>
  The repository is one Jupyter notebook (nbformat 4), the checkpoint copy of
  ``Output Operations on DStreams''. A notebook is a list of cells. A markdown cell has
  its source lines only; a code cell has also its execution count (\<open>null\<close> in the
  file is \<open>None\<close>), the \<open>collapsed\<close> flag of its metadata and the list of its
  outputs. Source lines are kept as the file has them, with their line ends; the one
  character outside ASCII (a right single quotation mark) is its three UTF-8 bytes.
\<close>

datatype cell =
    Markdown (source: "string list")
  | Code (execution_count: "int option") (collapsed: bool) (outputs: "string list")
      (source: "string list")

definition cell_0 :: cell where
  \<open>cell_0 = Markdown
    [
     ''# Output Operations on DStreams'']\<close>

definition cell_1 :: cell where
  \<open>cell_1 = Markdown
    [
     ''Output operations allow DStream'' @ [CHR 0xE2, CHR 0x80, CHR 0x99] @ ''s data to be pushed out to external systems like a database or a file systems. Since the output operations actually allow the transformed data to be consumed by external systems, they trigger the actual execution of all the DStream transformations (similar to actions for RDDs). Currently, the following output operations are defined:\<newline>'',
     ''\<newline>'',
     ''| Output Operation        | Meaning           |\<newline>'',
     ''|-------------:|:------------- |\<newline>'',
     ''| **pprint**()      | Prints the first ten elements of every batch of data in a DStream on the driver node running the streaming application. This is useful for development and debugging. |\<newline>'',
     ''| **saveAsTextFiles**(prefix, [suffix])     | Save this DStream's contents as text files. The file name at each batch interval is generated based on prefix and suffix: "prefix-TIME_IN_MS[.suffix]". |\<newline>'',
     ''| **saveAsObjectFiles**(prefix, [suffix]) | Save this DStream's contents as SequenceFiles of serialized Java objects. The file name at each batch interval is generated based on prefix and suffix: "prefix-TIME_IN_MS[.suffix]". This is not available in the Python API. |\<newline>'',
     ''| **saveAsHadoopFiles**(prefix, [suffix])      | Save this DStream's contents as Hadoop files. The file name at each batch interval is generated based on prefix and suffix: "prefix-TIME_IN_MS[.suffix]". This is not available in the Python API. |\<newline>'',
     ''| **foreachRDD**(func) | The most generic output operator that applies a function, func, to each RDD generated from the stream. This function should push the data in each RDD to an external system, such as saving the RDD to files, or writing it over the network to a database. Note that the function func is executed in the driver process running the streaming application, and will usually have RDD actions in it that will force the computation of the streaming RDDs. |\<newline>'',
     ''\<newline>'']\<close>

definition cell_2 :: cell where
  \<open>cell_2 = Markdown
    [
     ''Different output operation\<newline>'',
     ''* Print\<newline>'',
     ''* saveAsTextFiles\<newline>'',
     ''* saveAsObjectFiles (not available in Python)\<newline>'',
     ''* saveAsHadoopFiles (not available in Python)\<newline>'',
     ''* foreachRDD\<newline>'',
     ''\<newline>'',
     ''DEMO: Demo how to save tweets to files\<newline>'',
     ''* Example: https://drive.google.com/open?id=0Bym8DZ5hyGifaXgwWFQxdVQ4UzA\<newline>'',
     ''* use foreachRDD and saveAsTextFiles\<newline>'']\<close>

definition SaveTweets_source :: "string list" where
  \<open>SaveTweets_source =
    [
     ''package com.sundogsoftware.sparkstreaming\<newline>'',
     ''\<newline>'',
     ''import org.apache.spark._\<newline>'',
     ''import org.apache.spark.SparkContext._\<newline>'',
     ''import org.apache.spark.streaming._\<newline>'',
     ''import org.apache.spark.streaming.twitter._\<newline>'',
     ''import org.apache.spark.streaming.StreamingContext._\<newline>'',
     ''import Utilities._\<newline>'',
     ''\<newline>'',
     ''/** Listens to a stream of tweets and saves them to disk. */\<newline>'',
     ''object SaveTweets {\<newline>'',
     ''  \<newline>'',
     ''  /** Our main function where the action happens */\<newline>'',
     ''  def main(args: Array[String]) {\<newline>'',
     ''\<newline>'',
     ''    // Configure Twitter credentials using twitter.txt\<newline>'',
     ''    setupTwitter()\<newline>'',
     ''    \<newline>'',
     ''    // Set up a Spark streaming context named "SaveTweets" that runs locally using\<newline>'',
     ''    // all CPU cores and one-second batches of data\<newline>'',
     ''    val ssc = new StreamingContext("local[*]", "SaveTweets", Seconds(1))\<newline>'',
     ''    \<newline>'',
     ''    // Get rid of log spam (should be called after the context is set up)\<newline>'',
     ''    setupLogging()\<newline>'',
     ''\<newline>'',
     ''    // Create a DStream from Twitter using our streaming context\<newline>'',
     ''    val tweets = TwitterUtils.createStream(ssc, None)\<newline>'',
     ''    \<newline>'',
     ''    // Now extract the text of each status update into RDD's using map()\<newline>'',
     ''    val statuses = tweets.map(status => status.getText())\<newline>'',
     ''    \<newline>'',
     ''    // Here's one way to just dump every partition of every stream to individual files:\<newline>'',
     ''    //statuses.saveAsTextFiles("Tweets", "txt")\<newline>'',
     ''    \<newline>'',
     ''    // But let's do it the hard way to get a bit more control.\<newline>'',
     ''    \<newline>'',
     ''    // Keep count of how many Tweets we've received so we can stop automatically\<newline>'',
     ''    // (and not fill up your disk!)\<newline>'',
     ''    var totalTweets:Long = 0\<newline>'',
     ''        \<newline>'',
     ''    statuses.foreachRDD((rdd, time) => {\<newline>'',
     ''      // Don't bother with empty batches\<newline>'',
     ''      if (rdd.count() > 0) {\<newline>'',
     ''        // Combine each partition's results into a single RDD:\<newline>'',
     ''        val repartitionedRDD = rdd.repartition(1).cache()\<newline>'',
     ''        // And print out a directory with the results.\<newline>'',
     ''        repartitionedRDD.saveAsTextFile("Tweets_" + time.milliseconds.toString)\<newline>'',
     ''        // Stop once we've collected 1000 tweets.\<newline>'',
     ''        totalTweets += repartitionedRDD.count()\<newline>'',
     ''        println("Tweet count: " + totalTweets)\<newline>'',
     ''        if (totalTweets > 1000) {\<newline>'',
     ''          System.exit(0)\<newline>'',
     ''        }\<newline>'',
     ''      }\<newline>'',
     ''    })\<newline>'',
     ''    \<newline>'',
     ''    // You can also write results into a database of your choosing, but we'll do that later.\<newline>'',
     ''    \<newline>'',
     ''    // Set a checkpoint directory, and kick it all off\<newline>'',
     ''    ssc.checkpoint("C:/checkpoint/")\<newline>'',
     ''    ssc.start()\<newline>'',
     ''    ssc.awaitTermination()\<newline>'',
     ''  }  \<newline>'',
     ''}\<newline>'']\<close>

definition cell_3 :: cell where
  \<open>cell_3 = Markdown
    ([''Scala Example\<newline>'', ''```scala\<newline>'']
      @ SaveTweets_source
      @ [''```\<newline>''])\<close>

definition cell_4 :: cell where
  \<open>cell_4 = Markdown
    [
     ''### Demo: How to save tweets to files\<newline>'',
     ''use foreachRDD and saveAsTextFiles'']\<close>

definition cell_5 :: cell where
  \<open>cell_5 = Code None True [] []\<close>

definition cell_6 :: cell where
  \<open>cell_6 = Markdown
    [
     ''## References\<newline>'',
     ''1. https://drive.google.com/open?id=0Bym8DZ5hyGifaXgwWFQxdVQ4UzA\<newline>'',
     ''2. https://spark.apache.org/docs/latest/streaming-programming-guide.html#output-operations-on-dstreams'']\<close>

definition cell_7 :: cell where
  \<open>cell_7 = Markdown
    [
     '' '']\<close>

definition cells :: "cell list" where
  "cells = [cell_0, cell_1, cell_2, cell_3, cell_4, cell_5, cell_6, cell_7]"

subsection \<open>Reading the notebook\<close>

primrec is_code :: "cell \<Rightarrow> bool" where
  "is_code (Markdown src) = False"
| "is_code (Code ec col outs src) = True"

definition code_cells :: "cell list \<Rightarrow> cell list" where
  "code_cells cs = filter is_code cs"

definition markdown_cells :: "cell list \<Rightarrow> cell list" where
  "markdown_cells cs = filter (\<lambda>c. \<not> is_code c) cs"

text \<open>
  Text search on source lines: \<open>starts_with p s\<close> holds when \<open>p\<close> is a prefix of
  \<open>s\<close>, \<open>occurs_in p s\<close> when \<open>p\<close> occurs somewhere in \<open>s\<close>, and
  \<open>mentions p ls\<close> when \<open>p\<close> occurs in one of the lines \<open>ls\<close>.
\<close>

primrec starts_with :: "string \<Rightarrow> string \<Rightarrow> bool" where
  "starts_with [] s = True"
| "starts_with (c # p) s = (case s of [] \<Rightarrow> False | d # s' \<Rightarrow> c = d \<and> starts_with p s')"

primrec occurs_in :: "string \<Rightarrow> string \<Rightarrow> bool" where
  "occurs_in p [] = starts_with p []"
| "occurs_in p (d # s) = (starts_with p (d # s) \<or> occurs_in p s)"

primrec mentions :: "string \<Rightarrow> string list \<Rightarrow> bool" where
  "mentions p [] = False"
| "mentions p (l # ls) = (occurs_in p l \<or> mentions p ls)"

text \<open>
  The code a notebook shows: in a markdown cell, the fenced blocks (the lines between a
  line that starts with three backquotes and the next such line, or the end of the cell);
  in a code cell, its source when it has one. \<open>fenced ls None\<close> reads outside a
  block, \<open>fenced ls (Some acc)\<close> inside one, \<open>acc\<close> holding the block's lines so far, last
  line first.
\<close>

primrec fenced :: "string list \<Rightarrow> string list option \<Rightarrow> string list list" where
  "fenced [] st = (case st of None \<Rightarrow> [] | Some acc \<Rightarrow> [rev acc])"
| "fenced (l # ls) st =
     (case st of
        None \<Rightarrow> if starts_with ''```'' l then fenced ls (Some []) else fenced ls None
      | Some acc \<Rightarrow>
          if starts_with ''```'' l then rev acc # fenced ls None
          else fenced ls (Some (l # acc)))"

primrec fragments_of :: "cell \<Rightarrow> string list list" where
  "fragments_of (Markdown src) = fenced src None"
| "fragments_of (Code ec col outs src) = (if src = [] then [] else [src])"

definition code_fragments :: "cell list \<Rightarrow> string list list" where
  "code_fragments cs = concat (map fragments_of cs)"

text \<open>
  The statements of a Scala fragment: its lines but the comment lines, those whose first
  characters after the indentation are \<open>//\<close> or \<open>/*\<close>.
\<close>

definition is_comment_line :: "string \<Rightarrow> bool" where
  "is_comment_line l =
     (let t = dropWhile (\<lambda>c. c = CHR '' '') l in starts_with ''//'' t \<or> starts_with ''/*'' t)"

definition statements :: "string list \<Rightarrow> string list" where
  "statements ls = filter (\<lambda>l. \<not> is_comment_line l) ls"

text \<open>
  Words of error handling, in Scala (the language of the embedded example) and in Python
  (the language of the notebook's kernel).
\<close>

definition error_handling_words :: "string list" where
  "error_handling_words =
     [''try'', ''catch'', ''finally'', ''throw'', ''Try'', ''Exception'', ''except'', ''raise'']"

definition handles_errors :: "string list \<Rightarrow> bool" where
  "handles_errors ls = list_ex (\<lambda>w. mentions w ls) error_handling_words"


section \<open>The SaveTweets example\<close>

text \<open>
  The Scala program of \<open>SaveTweets_source\<close>, as a state transformer. What the program
  can change is the counter \<open>totalTweets\<close> (a Scala \<open>Long\<close>: 64 bits, two's
  complement, \<open>+=\<close> wraps around), the directories it has saved (name and contents),
  the lines it has printed, and whether the process has exited (\<open>System.exit(0)\<close>
  sets the exit code \<open>0\<close>; nothing runs after it).

  An RDD of status texts is the list of its partitions, each a list of records.
  \<open>count()\<close> returns the number of records as a \<open>Long\<close>; \<open>repartition(n)\<close>
  deals the records out to \<open>n\<close> partitions (which record goes where is the
  framework's choice, here in turn; the program calls \<open>repartition(1)\<close> only, where
  one partition gets them all); \<open>cache()\<close> changes no contents. A batch is an RDD and
  the batch time in milliseconds (\<open>time.milliseconds\<close>, a \<open>Long\<close>).
\<close>

type_synonym long = "64 word"

type_synonym rdd = "string list list"

type_synonym batch = "rdd \<times> long"

definition rdd_count :: "rdd \<Rightarrow> long" where
  "rdd_count r = word_of_nat (length (concat r))"

definition repartition :: "nat \<Rightarrow> rdd \<Rightarrow> rdd" where
  "repartition n r =
     map (\<lambda>i. map snd (filter (\<lambda>p. fst p mod n = i) (enumerate 0 (concat r)))) [0..<n]"

definition cache :: "rdd \<Rightarrow> rdd" where
  "cache r = r"

text \<open>\<open>Long.toString\<close>: decimal digits, with a minus sign for a negative value.\<close>

fun digits :: "nat \<Rightarrow> string" where
  "digits n =
     (if n < 10 then [''0123456789'' ! n]
      else digits (n div 10) @ [''0123456789'' ! (n mod 10)])"

declare digits.simps [simp del]

definition long_toString :: "long \<Rightarrow> string" where
  "long_toString w =
     (if w <s 0 then ''-'' @ digits (nat (- sint w)) else digits (nat (sint w)))"

record state =
  totalTweets :: long
  saved :: "(string \<times> rdd) list"
  printed :: "string list"
  exit_code :: "int option"

text \<open>\<open>var totalTweets:Long = 0\<close>, nothing saved or printed, the process running.\<close>

definition init :: state where
  "init = \<lparr> totalTweets = 0, saved = [], printed = [], exit_code = None \<rparr>"

definition saveAsTextFile :: "string \<Rightarrow> rdd \<Rightarrow> state \<Rightarrow> state" where
  "saveAsTextFile path r st = st \<lparr> saved := saved st @ [(path, r)] \<rparr>"

definition println :: "string \<Rightarrow> state \<Rightarrow> state" where
  "println line st = st \<lparr> printed := printed st @ [line] \<rparr>"

definition System_exit :: "int \<Rightarrow> state \<Rightarrow> state" where
  "System_exit code st = st \<lparr> exit_code := Some code \<rparr>"

text \<open>
  The function given to \<open>statuses.foreachRDD\<close>, statement by statement:
  \<^verbatim>\<open>if (rdd.count() > 0)\<close>, the repartition, the save under
  \<^verbatim>\<open>"Tweets_" + time.milliseconds.toString\<close>, the addition to the counter, the
  printed count and the test \<^verbatim>\<open>totalTweets > 1000\<close> before \<open>System.exit(0)\<close>.
  The comparisons are those of signed 64-bit values.
\<close>

definition callback :: "batch \<Rightarrow> state \<Rightarrow> state" where
  "callback b st =
     (case b of (rdd, time) \<Rightarrow>
        if 0 <s rdd_count rdd then
          (let repartitionedRDD = cache (repartition 1 rdd);
               st1 = saveAsTextFile (''Tweets_'' @ long_toString time) repartitionedRDD st;
               st2 = st1 \<lparr> totalTweets := totalTweets st1 + rdd_count repartitionedRDD \<rparr>;
               st3 = println (''Tweet count: '' @ long_toString (totalTweets st2)) st2
           in if 1000 <s totalTweets st3 then System_exit 0 st3 else st3)
        else st)"

text \<open>
  The program from \<open>ssc.start()\<close> on: the function is called on the batches in their
  order, and no batch is processed once the process has exited. \<open>trace\<close> lists the
  states the program goes through, \<open>run\<close> gives the last of them, \<open>totals\<close> the
  values of the counter along the way, and \<open>exit_step\<close> the state and the batch at
  which the program exits, when it does.
\<close>

fun trace :: "batch list \<Rightarrow> state \<Rightarrow> state list" where
  "trace [] st = [st]"
| "trace (b # bs) st =
     st # (if exit_code (callback b st) = None then trace bs (callback b st)
           else [callback b st])"

fun run :: "batch list \<Rightarrow> state \<Rightarrow> state" where
  "run [] st = st"
| "run (b # bs) st =
     (if exit_code (callback b st) = None then run bs (callback b st) else callback b st)"

definition totals :: "batch list \<Rightarrow> int list" where
  "totals bs = map (\<lambda>st. sint (totalTweets st)) (trace bs init)"

fun exit_step :: "batch list \<Rightarrow> state \<Rightarrow> (state \<times> batch) option" where
  "exit_step [] st = None"
| "exit_step (b # bs) st =
     (if exit_code (callback b st) = None then exit_step bs (callback b st) else Some (st, b))"

text \<open>
  No addition to the counter leaves the range of a \<open>Long\<close> while the program runs on
  the batches \<open>bs\<close> from the state \<open>st\<close>.
\<close>

fun in_range :: "batch list \<Rightarrow> state \<Rightarrow> bool" where
  "in_range [] st = True"
| "in_range (b # bs) st =
     (sint (totalTweets st) + sint (rdd_count (fst b)) < 2 ^ 63 \<and>
      (if exit_code (callback b st) = None then in_range bs (callback b st) else True))"

text \<open>
  A batch the program can be given: \<open>count()\<close> is a \<open>Long\<close>, so no RDD has
  \<open>2\<^sup>6\<^sup>3\<close> records or more, and the bound leaves room for the 1000 the counter can
  hold when the function is called. The tweets of one second are far below it.
\<close>

definition receivable :: "batch \<Rightarrow> bool" where
  "receivable b = (length (concat (fst b)) < 2 ^ 63 - 1000)"


section \<open>The cells of the notebook\<close>

text \<open>
  C1. Every cell of the notebook is a markdown cell except exactly one code cell, and
  that code cell's source is empty: the notebook has eight cells, the sixth is the only
  code cell, and the list of the sources of its code cells is the single empty source.
\<close>

theorem only_code_cell_is_empty:
  "map is_code cells = [False, False, False, False, False, True, False, False]
   \<and> length (code_cells cells) = 1
   \<and> length (markdown_cells cells) = 7
   \<and> map source (code_cells cells) = [[]]"
  by (simp add: cells_def code_cells_def markdown_cells_def cell_0_def cell_1_def cell_2_def
      cell_3_def cell_4_def cell_5_def cell_6_def cell_7_def)

text \<open>
  C7. The only code cell has never produced output: its list of outputs is empty and
  its execution count is \<open>null\<close>.
\<close>

theorem code_cell_never_ran:
  "map outputs (code_cells cells) = [[]]
   \<and> map execution_count (code_cells cells) = [None]"
  by (simp add: cells_def code_cells_def cell_0_def cell_1_def cell_2_def
      cell_3_def cell_4_def cell_5_def cell_6_def cell_7_def)


section \<open>The code the notebook shows\<close>

lemma fenced_inside_append:
  "list_all (\<lambda>l. \<not> starts_with ''```'' l) ls \<Longrightarrow>
   fenced (ls @ rest) (Some acc) = fenced rest (Some (rev ls @ acc))"
  by (induction ls arbitrary: acc) simp_all

lemma SaveTweets_source_no_fence:
  "list_all (\<lambda>l. \<not> starts_with ''```'' l) SaveTweets_source"
  by (simp add: SaveTweets_source_def)

lemma fragments_of_cell_3: "fragments_of cell_3 = [SaveTweets_source]"
  by (simp add: cell_3_def fenced_inside_append [OF SaveTweets_source_no_fence])

lemma fragments_of_other_cells:
  "fragments_of cell_0 = []" "fragments_of cell_1 = []" "fragments_of cell_2 = []"
  "fragments_of cell_4 = []" "fragments_of cell_5 = []" "fragments_of cell_6 = []"
  "fragments_of cell_7 = []"
  by (simp_all add: cell_0_def cell_1_def cell_2_def cell_4_def cell_5_def cell_6_def
      cell_7_def)

lemma code_fragments_cells: "code_fragments cells = [SaveTweets_source]"
  by (simp add: code_fragments_def cells_def fragments_of_cell_3 fragments_of_other_cells)

lemma statements_mentions:
  "mentions ''object SaveTweets'' (statements SaveTweets_source)"
  "mentions ''TwitterUtils.createStream('' (statements SaveTweets_source)"
  "mentions ''.foreachRDD('' (statements SaveTweets_source)"
  "mentions ''ssc.checkpoint('' (statements SaveTweets_source)"
  "mentions ''System.exit('' (statements SaveTweets_source)"
  by (simp_all add: SaveTweets_source_def statements_def is_comment_line_def)

text \<open>
  C3. The notebook contains exactly one code fragment, the Scala program SaveTweets of
  the fourth cell, and the statements of that fragment (its comment lines left out) call
  each of the four interfaces of the framework: stream creation
  (\<open>TwitterUtils.createStream\<close>), registration of the function called for each batch
  (\<open>foreachRDD\<close>), the checkpoint directory (\<open>ssc.checkpoint\<close>) and the end of the
  process (\<open>System.exit\<close>).
\<close>

theorem one_fragment_four_interfaces:
  "code_fragments cells = [SaveTweets_source]
   \<and> length (code_fragments cells) = 1
   \<and> mentions ''object SaveTweets'' (statements SaveTweets_source)
   \<and> mentions ''TwitterUtils.createStream('' (statements SaveTweets_source)
   \<and> mentions ''.foreachRDD('' (statements SaveTweets_source)
   \<and> mentions ''ssc.checkpoint('' (statements SaveTweets_source)
   \<and> mentions ''System.exit('' (statements SaveTweets_source)"
  by (simp add: code_fragments_cells statements_mentions)

section \<open>The function given to foreachRDD\<close>

subsection \<open>One call\<close>

lemma repartition_Suc_0: "repartition (Suc 0) r = [concat r]"
  by (simp add: repartition_def map_snd_enumerate)

lemma repartition_1: "repartition 1 r = [concat r]"
  using repartition_Suc_0 [of r] by simp

lemma rdd_count_repartition: "rdd_count (cache (repartition 1 r)) = rdd_count r"
  by (simp add: rdd_count_def cache_def repartition_Suc_0)

lemma rdd_count_concat: "rdd_count [concat r] = rdd_count r"
  by (simp add: rdd_count_def)

lemma callback_empty: "\<not> 0 <s rdd_count rdd \<Longrightarrow> callback (rdd, time) st = st"
  by (simp add: callback_def)

lemma callback_nonempty:
  "0 <s rdd_count rdd \<Longrightarrow>
   callback (rdd, time) st =
     st \<lparr> totalTweets := totalTweets st + rdd_count rdd,
          saved := saved st @ [(''Tweets_'' @ long_toString time, [concat rdd])],
          printed := printed st @ [''Tweet count: '' @ long_toString (totalTweets st + rdd_count rdd)],
          exit_code := (if 1000 <s totalTweets st + rdd_count rdd then Some 0 else exit_code st) \<rparr>"
  by (simp add: callback_def saveAsTextFile_def println_def System_exit_def Let_def
      cache_def repartition_Suc_0 rdd_count_concat)

lemma totalTweets_callback:
  "totalTweets (callback (rdd, time) st) =
     (if 0 <s rdd_count rdd then totalTweets st + rdd_count rdd else totalTweets st)"
  by (simp add: callback_empty callback_nonempty)

lemma exit_code_callback:
  "exit_code (callback (rdd, time) st) =
     (if 0 <s rdd_count rdd \<and> 1000 <s totalTweets st + rdd_count rdd then Some 0 else exit_code st)"
  by (cases "0 <s rdd_count rdd") (simp_all add: callback_empty callback_nonempty)

lemma sint_add_in_range:
  fixes a b :: long
  assumes "0 <s b" and "sint a + sint b < 2 ^ 63"
  shows "sint (a + b) = sint a + sint b"
proof -
  have lo: "- (2 ^ 63) \<le> sint a" using sint_ge [of a] by simp
  have pos: "0 < sint b" using assms(1) by (simp add: word_sless_alt)
  have "sint (a + b) = signed_take_bit 63 (sint a + sint b)"
    by (simp add: sint_word_ariths)
  also have "\<dots> = sint a + sint b"
    using lo pos assms(2) by (intro signed_take_bit_int_eq_self) simp_all
  finally show ?thesis .
qed

lemma callback_step_in_range:
  assumes "sint (totalTweets st) + sint (rdd_count rdd) < 2 ^ 63"
  shows "sint (totalTweets (callback (rdd, time) st)) =
           sint (totalTweets st) + (if 0 <s rdd_count rdd then sint (rdd_count rdd) else 0)"
  using assms by (simp add: totalTweets_callback sint_add_in_range)

lemma callback_step_mono:
  assumes "sint (totalTweets st) + sint (rdd_count rdd) < 2 ^ 63"
  shows "sint (totalTweets st) \<le> sint (totalTweets (callback (rdd, time) st))"
  using callback_step_in_range [OF assms, of time] by (simp add: word_sless_alt split: if_splits)

lemma trace_not_Nil: "trace bs st \<noteq> []"
  by (cases bs) simp_all

lemma hd_trace: "hd (trace bs st) = st"
  by (cases bs) simp_all

lemma last_trace: "last (trace bs st) = run bs st"
  by (induction bs arbitrary: st) (simp_all add: trace_not_Nil)

lemma sorted_trace:
  "in_range bs st \<Longrightarrow> sorted (map (\<lambda>s. sint (totalTweets s)) (trace bs st))"
proof (induction bs arbitrary: st)
  case Nil
  then show ?case by simp
next
  case (Cons b bs)
  obtain rdd time where b: "b = (rdd, time)" by (cases b)
  let ?st' = "callback b st"
  have step: "sint (totalTweets st) \<le> sint (totalTweets ?st')"
    using Cons.prems callback_step_mono [of st rdd time] by (simp add: b)
  show ?case
  proof (cases "exit_code ?st' = None")
    case True
    then have "in_range bs ?st'" using Cons.prems by simp
    then have srt: "sorted (map (\<lambda>s. sint (totalTweets s)) (trace bs ?st'))"
      by (rule Cons.IH)
    have "trace bs ?st' = ?st' # tl (trace bs ?st')"
      using trace_not_Nil [of bs ?st'] hd_trace [of bs ?st'] by (cases "trace bs ?st'") simp_all
    then obtain rest where rest: "trace bs ?st' = ?st' # rest" ..
    show ?thesis using True srt step by (auto simp: rest)
  next
    case False
    then show ?thesis using step by auto
  qed
qed

lemmas run_eval = callback_def rdd_count_def repartition_Suc_0 cache_def saveAsTextFile_def
  println_def System_exit_def init_def word_sless_alt Let_def

text \<open>
  C8. For every batch whose RDD has count zero, the function does nothing: the state
  after the call is the state before it, so no directory is saved, nothing is printed,
  \<open>System.exit\<close> is not called and \<open>totalTweets\<close> is unchanged.
\<close>

theorem empty_batch_is_noop:
  assumes "rdd_count rdd = 0"
  shows "callback (rdd, time) st = st
         \<and> saved (callback (rdd, time) st) = saved st
         \<and> printed (callback (rdd, time) st) = printed st
         \<and> exit_code (callback (rdd, time) st) = exit_code st
         \<and> totalTweets (callback (rdd, time) st) = totalTweets st"
  using assms by (simp add: callback_empty)

theorem empty_batch_is_noop_witness:
  "rdd_count [[], []] = 0
   \<and> callback ([[], []], 1509000000000) init = init
   \<and> saved (callback ([[], []], 1509000000000) init) = []
   \<and> printed (callback ([[], []], 1509000000000) init) = []
   \<and> exit_code (callback ([[], []], 1509000000000) init) = None
   \<and> totalTweets (callback ([[], []], 1509000000000) init) = 0"
proof -
  have h: "rdd_count [[], []] = 0" by (simp add: rdd_count_def)
  show ?thesis
    using h empty_batch_is_noop [OF h, of 1509000000000 init] by (simp add: init_def)
qed

subsection \<open>The exit\<close>

lemma sint_add_exit:
  fixes a b :: long
  assumes "0 <s b" and "sint a \<le> 1000" and "1000 <s a + b"
  shows "sint (a + b) = sint a + sint b"
proof (cases "sint a + sint b < 2 ^ 63")
  case True
  then show ?thesis by (rule sint_add_in_range [OF assms(1)])
next
  case False
  then have big: "(2::int) ^ 63 \<le> sint a + sint b" by simp
  have "sint b < 2 ^ 63" using sint_less [of b] by simp
  then have up: "sint a + sint b - 2 ^ Suc 63 < 0" using assms(2) by simp
  have "sint (a + b) = signed_take_bit 63 (sint a + sint b)"
    by (simp add: sint_word_ariths)
  also have "\<dots> \<le> sint a + sint b - 2 ^ Suc 63"
    by (rule signed_take_bit_int_less_eq [OF big])
  finally have "sint (a + b) < 0" using up by simp
  then show ?thesis using assms(3) by (simp add: word_sless_alt)
qed

lemma sint_word_of_nat:
  "n < 2 ^ 63 \<Longrightarrow> sint (word_of_nat n :: long) = int n"
  by (simp add: signed_of_nat signed_take_bit_int_eq_self)

lemma exit_callback_iff:
  assumes "exit_code st = None"
  shows "(exit_code (callback (rdd, time) st) = Some 0) =
           (0 <s rdd_count rdd \<and> 1000 <s totalTweets (callback (rdd, time) st))"
  using assms by (simp add: exit_code_callback totalTweets_callback)

lemma exit_callback_cases:
  assumes "exit_code st = None" and "exit_code (callback (rdd, time) st) \<noteq> None"
  shows "exit_code (callback (rdd, time) st) = Some 0 \<and> 0 <s rdd_count rdd
         \<and> 1000 <s totalTweets st + rdd_count rdd
         \<and> totalTweets (callback (rdd, time) st) = totalTweets st + rdd_count rdd"
  using assms by (simp add: exit_code_callback totalTweets_callback split: if_splits)

lemma running_below_1000:
  assumes "exit_code st = None" and "sint (totalTweets st) \<le> 1000"
    and "exit_code (callback (rdd, time) st) = None"
  shows "sint (totalTweets (callback (rdd, time) st)) \<le> 1000"
  using assms
  by (auto simp add: exit_code_callback totalTweets_callback word_sless_alt split: if_splits)

lemma run_without_exit:
  assumes "exit_code st = None" and "sint (totalTweets st) \<le> 1000"
    and "exit_step bs st = None"
  shows "exit_code (run bs st) = None \<and> sint (totalTweets (run bs st)) \<le> 1000"
  using assms
proof (induction bs arbitrary: st)
  case Nil
  then show ?case by simp
next
  case (Cons b bs)
  obtain rdd time where b: "b = (rdd, time)" by (cases b)
  from Cons.prems(3) have run: "exit_code (callback b st) = None"
    by (simp split: if_splits)
  then have below: "sint (totalTweets (callback b st)) \<le> 1000"
    using running_below_1000 [of st rdd time] Cons.prems(1,2) by (simp add: b)
  from Cons.prems(3) run have "exit_step bs (callback b st) = None" by simp
  then show ?case using Cons.IH [OF run below] run by simp
qed

lemma run_with_exit:
  assumes "exit_code st = None" and "sint (totalTweets st) \<le> 1000"
    and "exit_step bs st = Some (st', (rdd', time'))"
  shows "run bs st = callback (rdd', time') st' \<and> exit_code st' = None
         \<and> sint (totalTweets st') \<le> 1000 \<and> exit_code (callback (rdd', time') st') \<noteq> None"
  using assms
proof (induction bs arbitrary: st)
  case Nil
  then show ?case by simp
next
  case (Cons b bs)
  obtain rdd time where b: "b = (rdd, time)" by (cases b)
  show ?case
  proof (cases "exit_code (callback b st) = None")
    case True
    then have below: "sint (totalTweets (callback b st)) \<le> 1000"
      using running_below_1000 [of st rdd time] Cons.prems(1,2) by (simp add: b)
    from Cons.prems(3) True have "exit_step bs (callback b st) = Some (st', (rdd', time'))"
      by simp
    then show ?thesis using Cons.IH [OF True below] True by simp
  next
    case False
    then show ?thesis using Cons.prems by auto
  qed
qed

lemma overshoot_full_batch:
  assumes "0 < n" and "n < 2 ^ 63 - 1000"
  shows "exit_code (run [([replicate 1000 x], t1), ([replicate n y], t2)] init) = Some 0
         \<and> sint (totalTweets (run [([replicate 1000 x], t1), ([replicate n y], t2)] init))
             = 1000 + int n"
proof -
  let ?st1 = "callback ([replicate 1000 x], t1) init"
  have c1: "rdd_count [replicate 1000 x] = 1000" by (simp add: rdd_count_def)
  have c2: "rdd_count [replicate n y] = word_of_nat n" by (simp add: rdd_count_def)
  have n63: "n < 2 ^ 63" using assms(2) by simp
  have sn: "sint (word_of_nat n :: long) = int n" by (rule sint_word_of_nat [OF n63])
  have pos: "0 <s (word_of_nat n :: long)" using assms(1) sn by (simp add: word_sless_alt)
  have t1: "totalTweets ?st1 = 1000" and e1: "exit_code ?st1 = None"
    by (simp_all add: totalTweets_callback exit_code_callback c1 init_def word_sless_alt)
  have "sint (1000 :: long) + sint (word_of_nat n :: long) < 2 ^ 63"
    using assms(2) sn by simp
  then have s2: "sint (1000 + word_of_nat n :: long) = 1000 + int n"
    using sint_add_in_range [OF pos, of 1000] sn by simp
  then have over: "1000 <s (1000 + word_of_nat n :: long)"
    using assms(1) by (simp add: word_sless_alt)
  have t2: "totalTweets (callback ([replicate n y], t2) ?st1) = 1000 + word_of_nat n"
    and e2: "exit_code (callback ([replicate n y], t2) ?st1) = Some 0"
    using pos over totalTweets_callback [of "[replicate n y]" t2 ?st1]
      exit_code_callback [of "[replicate n y]" t2 ?st1]
    by (simp_all add: c2 t1)
  show ?thesis using e1 e2 t2 s2 by simp
qed

text \<open>
  C10. A call made while the program runs calls \<open>System.exit(0)\<close> exactly when its
  batch is not empty and \<open>totalTweets\<close> is strictly greater than 1000 after it; a
  total of exactly 1000 does not exit. Run from the initial state, the program either
  never exits, the counter being at most 1000 at its end, or exits at one batch: the
  counter was at most 1000 before that batch, is strictly above 1000 at the exit, and
  exceeds 1000 by at most the count of that batch. The whole batch can be the excess:
  after a first batch of 1000 records, a batch of \<open>n\<close> records exits at \<open>1000 + n\<close>.
\<close>

theorem exit_only_above_1000:
  "(exit_code st = None \<longrightarrow>
      (exit_code (callback (rdd, time) st) = Some 0)
        = (0 <s rdd_count rdd \<and> 1000 <s totalTweets (callback (rdd, time) st)))
   \<and> (exit_code st = None \<and> totalTweets (callback (rdd, time) st) = 1000 \<longrightarrow>
      exit_code (callback (rdd, time) st) = None)
   \<and> (exit_step bs init = None \<longrightarrow>
      exit_code (run bs init) = None \<and> sint (totalTweets (run bs init)) \<le> 1000)
   \<and> (exit_step bs init = Some (st', (rdd', time')) \<longrightarrow>
      run bs init = callback (rdd', time') st'
      \<and> exit_code (run bs init) = Some 0
      \<and> 0 <s rdd_count rdd'
      \<and> sint (totalTweets st') \<le> 1000
      \<and> 1000 < sint (totalTweets (run bs init))
      \<and> sint (totalTweets (run bs init)) = sint (totalTweets st') + sint (rdd_count rdd')
      \<and> sint (totalTweets (run bs init)) \<le> 1000 + sint (rdd_count rdd'))
   \<and> (0 < n \<and> n < 2 ^ 63 - 1000 \<longrightarrow>
      exit_code (run [([replicate 1000 x], t1), ([replicate n y], t2)] init) = Some 0
      \<and> sint (totalTweets (run [([replicate 1000 x], t1), ([replicate n y], t2)] init))
          = 1000 + int n)"
proof (intro conjI impI)
  assume "exit_code st = None"
  then show "(exit_code (callback (rdd, time) st) = Some 0)
        = (0 <s rdd_count rdd \<and> 1000 <s totalTweets (callback (rdd, time) st))"
    by (rule exit_callback_iff)
next
  assume "exit_code st = None \<and> totalTweets (callback (rdd, time) st) = 1000"
  then show "exit_code (callback (rdd, time) st) = None"
    by (simp add: exit_code_callback totalTweets_callback split: if_splits)
next
  have i0: "exit_code init = None" and i1: "sint (totalTweets init) \<le> 1000"
    by (simp_all add: init_def)
  {
    assume "exit_step bs init = None"
    from run_without_exit [OF i0 i1 this]
    show "exit_code (run bs init) = None" and "sint (totalTweets (run bs init)) \<le> 1000"
      by simp_all
  }
  {
    assume "exit_step bs init = Some (st', (rdd', time'))"
    from run_with_exit [OF i0 i1 this]
    have r: "run bs init = callback (rdd', time') st'" and e: "exit_code st' = None"
      and b: "sint (totalTweets st') \<le> 1000"
      and x: "exit_code (callback (rdd', time') st') \<noteq> None"
      by simp_all
    from exit_callback_cases [OF e x]
    have x0: "exit_code (callback (rdd', time') st') = Some 0" and p: "0 <s rdd_count rdd'"
      and o: "1000 <s totalTweets st' + rdd_count rdd'"
      and t: "totalTweets (callback (rdd', time') st') = totalTweets st' + rdd_count rdd'"
      by simp_all
    have s: "sint (totalTweets st' + rdd_count rdd') = sint (totalTweets st') + sint (rdd_count rdd')"
      by (rule sint_add_exit [OF p b o])
    show "run bs init = callback (rdd', time') st'" by (rule r)
    show "exit_code (run bs init) = Some 0" using r x0 by simp
    show "0 <s rdd_count rdd'" by (rule p)
    show "sint (totalTweets st') \<le> 1000" by (rule b)
    show "1000 < sint (totalTweets (run bs init))" using o r t by (simp add: word_sless_alt)
    show "sint (totalTweets (run bs init)) = sint (totalTweets st') + sint (rdd_count rdd')"
      using r t s by simp
    then show "sint (totalTweets (run bs init)) \<le> 1000 + sint (rdd_count rdd')"
      using b by simp
  }
  {
    assume "0 < n \<and> n < 2 ^ 63 - 1000"
    then have "0 < n" and "n < 2 ^ 63 - 1000" by simp_all
    from overshoot_full_batch [OF this, of x t1 y t2]
    show "exit_code (run [([replicate 1000 x], t1), ([replicate n y], t2)] init) = Some 0"
      and "sint (totalTweets (run [([replicate 1000 x], t1), ([replicate n y], t2)] init))
          = 1000 + int n"
      by simp_all
  }
qed

theorem exit_only_above_1000_witness:
  "exit_code init = None
   \<and> exit_code (callback ([replicate 1001 ''t''], 1000) init) = Some 0
   \<and> totalTweets (callback ([replicate 1000 ''t''], 1000) init) = 1000
   \<and> exit_code (callback ([replicate 1000 ''t''], 1000) init) = None
   \<and> exit_step [([replicate 1000 ''t''], 1000)] init = None
   \<and> sint (totalTweets (run [([replicate 1000 ''t''], 1000)] init)) \<le> 1000
   \<and> exit_step [([replicate 1000 ''t''], 1000), ([replicate 7 ''u''], 2000)] init
        = Some (callback ([replicate 1000 ''t''], 1000) init, ([replicate 7 ''u''], 2000))
   \<and> sint (totalTweets (run [([replicate 1000 ''t''], 1000), ([replicate 7 ''u''], 2000)] init))
        = 1007
   \<and> exit_code (run [([replicate 1000 ''t''], 1000), ([replicate 7 ''u''], 2000)] init) = Some 0"
proof -
  let ?b0 = "([replicate 1001 ''t''], 1000) :: batch"
  let ?b1 = "([replicate 1000 ''t''], 1000) :: batch"
  let ?b2 = "([replicate 7 ''u''], 2000) :: batch"
  have h0: "exit_code init = None" by (simp add: init_def)
  have h1: "totalTweets (callback ?b1 init) = 1000" by (simp add: run_eval)
  have h2: "exit_step [?b1] init = None" by (simp add: run_eval)
  have h3: "exit_step [?b1, ?b2] init = Some (callback ?b1 init, ?b2)"
    by (simp add: run_eval)
  have h4: "(0::nat) < 7 \<and> (7::nat) < 2 ^ 63 - 1000" by simp
  have a: "exit_code (callback ?b0 init) = Some 0"
    using exit_only_above_1000 [of init "[replicate 1001 ''t'']" 1000] h0
    by (simp add: run_eval)
  have b: "exit_code (callback ?b1 init) = None
           \<and> sint (totalTweets (run [?b1] init)) \<le> 1000"
    using exit_only_above_1000 [of init "[replicate 1000 ''t'']" 1000 "[?b1]"] h0 h1 h2
    by (simp add: run_eval)
  have c: "sint (totalTweets (run [?b1, ?b2] init)) = 1007
           \<and> exit_code (run [?b1, ?b2] init) = Some 0"
    using exit_only_above_1000 [of init "[replicate 1000 ''t'']" 1000 "[?b1, ?b2]"
        "callback ?b1 init" "[replicate 7 ''u'']" 2000 7 "''t''" 1000 "''u''" 2000] h3 h4
    by (simp add: run_eval)
  show ?thesis using h0 h1 h2 h3 a b c by simp
qed

subsection \<open>The counter\<close>

lemma receivable_count:
  assumes "receivable (rdd, time)"
  shows "sint (rdd_count rdd) = int (length (concat rdd))"
proof -
  have "length (concat rdd) < 2 ^ 63" using assms by (simp add: receivable_def)
  then show ?thesis unfolding rdd_count_def by (rule sint_word_of_nat)
qed

lemma receivable_step_in_range:
  assumes "receivable (rdd, time)" and "sint (totalTweets st) \<le> 1000"
  shows "sint (totalTweets st) + sint (rdd_count rdd) < 2 ^ 63"
proof -
  have "int (length (concat rdd)) < 2 ^ 63 - 1000"
    using assms(1) by (simp add: receivable_def)
  then show ?thesis using assms(2) receivable_count [OF assms(1)] by simp
qed

lemma in_range_receivable:
  assumes "exit_code st = None" and "sint (totalTweets st) \<le> 1000"
    and "list_all receivable bs"
  shows "in_range bs st"
  using assms
proof (induction bs arbitrary: st)
  case Nil
  then show ?case by simp
next
  case (Cons b bs)
  obtain rdd time where b: "b = (rdd, time)" by (cases b)
  have rb: "receivable (rdd, time)" and rbs: "list_all receivable bs"
    using Cons.prems(3) by (simp_all add: b)
  have step: "sint (totalTweets st) + sint (rdd_count (fst b)) < 2 ^ 63"
    using receivable_step_in_range [OF rb Cons.prems(2)] by (simp add: b)
  show ?case
  proof (cases "exit_code (callback b st) = None")
    case True
    then have "sint (totalTweets (callback b st)) \<le> 1000"
      using running_below_1000 [of st rdd time] Cons.prems(1,2) by (simp add: b)
    then have "in_range bs (callback b st)" using Cons.IH [OF True _ rbs] by simp
    then show ?thesis using step True by simp
  next
    case False
    then show ?thesis using step by auto
  qed
qed

text \<open>
  C9. Across every sequence of calls of the function, \<open>totalTweets\<close> is
  monotonically non-decreasing. A call made while the program runs (the counter is then
  at most 1000) on a batch the program can be given leaves the counter unchanged (empty
  batch) or increases it by the count of the repartitioned batch, which is not negative;
  along every run of the program from the initial state on such batches the values of
  the counter are sorted, start at \<open>0\<close> and are never negative.
\<close>

theorem totalTweets_monotone:
  "(receivable (rdd, time) \<and> sint (totalTweets st) \<le> 1000 \<longrightarrow>
      sint (totalTweets (callback (rdd, time) st)) =
        sint (totalTweets st)
          + (if 0 <s rdd_count rdd then sint (rdd_count (cache (repartition 1 rdd))) else 0)
      \<and> 0 \<le> sint (rdd_count (cache (repartition 1 rdd)))
      \<and> sint (totalTweets st) \<le> sint (totalTweets (callback (rdd, time) st)))
   \<and> (list_all receivable bs \<longrightarrow>
      sorted (totals bs) \<and> hd (totals bs) = 0 \<and> list_all (\<lambda>n. 0 \<le> n) (totals bs))"
proof (intro conjI impI)
  assume h: "receivable (rdd, time) \<and> sint (totalTweets st) \<le> 1000"
  then have r: "receivable (rdd, time)" and b: "sint (totalTweets st) \<le> 1000" by simp_all
  note a = receivable_step_in_range [OF r b]
  show "sint (totalTweets (callback (rdd, time) st)) =
        sint (totalTweets st)
          + (if 0 <s rdd_count rdd then sint (rdd_count (cache (repartition 1 rdd))) else 0)"
    using callback_step_in_range [OF a, of time] rdd_count_repartition [of rdd] by simp
  show "0 \<le> sint (rdd_count (cache (repartition 1 rdd)))"
    using receivable_count [OF r] rdd_count_repartition [of rdd] by simp
  show "sint (totalTweets st) \<le> sint (totalTweets (callback (rdd, time) st))"
    by (rule callback_step_mono [OF a])
next
  assume r: "list_all receivable bs"
  have ir: "in_range bs init"
    by (rule in_range_receivable [OF _ _ r]) (simp_all add: init_def)
  show srt: "sorted (totals bs)"
    unfolding totals_def by (rule sorted_trace [OF ir])
  show hd0: "hd (totals bs) = 0"
    using trace_not_Nil [of bs init] hd_trace [of bs init]
    by (simp add: totals_def hd_map) (simp add: init_def)
  have ne: "totals bs \<noteq> []" by (simp add: totals_def trace_not_Nil)
  then obtain rest where tb: "totals bs = 0 # rest"
    using hd0 by (cases "totals bs") simp_all
  show "list_all (\<lambda>n. 0 \<le> n) (totals bs)"
    using srt by (simp add: tb list_all_iff)
qed

theorem totalTweets_monotone_witness:
  "receivable ([[''a'', ''b''], [''c'']], 1000)
   \<and> sint (totalTweets init) \<le> 1000
   \<and> sint (totalTweets (callback ([[''a'', ''b''], [''c'']], 1000) init)) = 3
   \<and> list_all receivable [([[''a'', ''b''], [''c'']], 1000), ([], 2000), ([[''d'']], 3000)]
   \<and> totals [([[''a'', ''b''], [''c'']], 1000), ([], 2000), ([[''d'']], 3000)] = [0, 3, 3, 4]
   \<and> sorted (totals [([[''a'', ''b''], [''c'']], 1000), ([], 2000), ([[''d'']], 3000)])"
proof -
  let ?r = "[[''a'', ''b''], [''c'']]"
  let ?bs = "[(?r, 1000), ([], 2000), ([[''d'']], 3000)] :: batch list"
  have h1: "receivable (?r, 1000) \<and> sint (totalTweets init) \<le> 1000"
    by (simp add: receivable_def init_def)
  have h2: "list_all receivable ?bs"
    by (simp add: receivable_def)
  have t: "totals ?bs = [0, 3, 3, 4]"
    by (simp add: totals_def run_eval)
  have "sint (totalTweets (callback (?r, 1000) init)) = 3 \<and> sorted (totals ?bs)"
    using totalTweets_monotone [of ?r 1000 init ?bs] h1 h2
    by (simp add: run_eval)
  then show ?thesis using h1 h2 t by simp
qed

text \<open>
  The bound on the batch is what keeps the addition inside a \<open>Long\<close>: on a batch of
  \<open>2\<^sup>6\<^sup>3 - 1\<close> records, which no RDD of the program holds, the addition would wrap
  around.
\<close>

lemma totalTweets_wraps_beyond_receivable:
  "\<not> receivable ([replicate 9223372036854775807 ''t''], 2000)
   \<and> totals [([[''t'']], 1000), ([replicate 9223372036854775807 ''t''], 2000)]
     = [0, 1, - 9223372036854775808]"
  by (simp add: totals_def run_eval receivable_def)

section \<open>Error handling\<close>

lemma SaveTweets_source_no_error_words:
  "\<not> mentions ''try'' SaveTweets_source"
  "\<not> mentions ''catch'' SaveTweets_source"
  "\<not> mentions ''finally'' SaveTweets_source"
  "\<not> mentions ''throw'' SaveTweets_source"
  "\<not> mentions ''Try'' SaveTweets_source"
  "\<not> mentions ''Exception'' SaveTweets_source"
  "\<not> mentions ''except'' SaveTweets_source"
  "\<not> mentions ''raise'' SaveTweets_source"
  by (simp_all add: SaveTweets_source_def)

lemma SaveTweets_source_handles_no_errors: "\<not> handles_errors SaveTweets_source"
  by (simp add: handles_errors_def error_handling_words_def SaveTweets_source_no_error_words)

lemma code_cells_cells: "code_cells cells = [cell_5]"
  by (simp add: code_cells_def cells_def cell_0_def cell_1_def cell_2_def cell_3_def
      cell_4_def cell_5_def cell_6_def cell_7_def)

lemma cell_5_handles_no_errors: "\<not> handles_errors (source cell_5)"
  by (simp add: cell_5_def handles_errors_def error_handling_words_def)

lemma repartition_one: "cache (repartition 1 r) = [concat r]"
  by (simp add: cache_def repartition_Suc_0)

lemma digits_small: "n < 10 \<Longrightarrow> digits n = [''0123456789'' ! n]"
  by (simp add: digits.simps)

lemma digits_big:
  "\<not> n < 10 \<Longrightarrow> digits n = digits (n div 10) @ [''0123456789'' ! (n mod 10)]"
  by (subst digits.simps) simp

text \<open>
  C6. There is no error handling in the repository: the one code fragment, the SaveTweets
  program, has no word of error handling on any of its lines (no \<open>try\<close>,
  \<open>catch\<close>, \<open>finally\<close>, \<open>throw\<close>, \<open>Try\<close> or exception), nor has the source
  of the one code cell, which is empty. The function called for each batch tests one
  thing, that the batch is not empty: then it always saves the repartitioned batch, adds
  its count to the counter and prints the counter, with no branch for a failure of any
  of these and no error among its results.
\<close>

theorem no_error_handling:
  "map handles_errors (code_fragments cells) = [False]
   \<and> map (\<lambda>c. handles_errors (source c)) (code_cells cells) = [False]
   \<and> (0 <s rdd_count rdd \<longrightarrow>
        saved (callback (rdd, time) st)
          = saved st @ [(''Tweets_'' @ long_toString time, cache (repartition 1 rdd))]
        \<and> totalTweets (callback (rdd, time) st)
          = totalTweets st + rdd_count (cache (repartition 1 rdd))
        \<and> printed (callback (rdd, time) st)
          = printed st @ [''Tweet count: '' @ long_toString (totalTweets (callback (rdd, time) st))])"
proof (intro conjI impI)
  show "map handles_errors (code_fragments cells) = [False]"
    by (simp add: code_fragments_cells SaveTweets_source_handles_no_errors)
  show "map (\<lambda>c. handles_errors (source c)) (code_cells cells) = [False]"
    by (simp add: code_cells_cells cell_5_handles_no_errors)
next
  assume ne: "0 <s rdd_count rdd"
  note cb = callback_nonempty [OF ne, of time st]
  show "saved (callback (rdd, time) st)
          = saved st @ [(''Tweets_'' @ long_toString time, cache (repartition 1 rdd))]"
    unfolding repartition_one by (simp add: cb)
  show "totalTweets (callback (rdd, time) st)
          = totalTweets st + rdd_count (cache (repartition 1 rdd))"
    unfolding repartition_one by (simp add: cb rdd_count_concat)
  show "printed (callback (rdd, time) st)
          = printed st @ [''Tweet count: '' @ long_toString (totalTweets (callback (rdd, time) st))]"
    by (simp add: cb)
qed

theorem no_error_handling_witness:
  "0 <s rdd_count [[''a'', ''b''], [''c'']]
   \<and> saved (callback ([[''a'', ''b''], [''c'']], 1509000000000) init)
        = [(''Tweets_1509000000000'', [[''a'', ''b'', ''c'']])]
   \<and> totalTweets (callback ([[''a'', ''b''], [''c'']], 1509000000000) init) = 3
   \<and> printed (callback ([[''a'', ''b''], [''c'']], 1509000000000) init) = [''Tweet count: 3'']"
proof -
  have h: "0 <s rdd_count [[''a'', ''b''], [''c'']]"
    by (simp add: rdd_count_def word_sless_alt)
  have t: "long_toString 1509000000000 = ''1509000000000''" "long_toString 3 = ''3''"
    by (simp_all add: long_toString_def word_sless_alt digits_small digits_big)
  show ?thesis
    using h no_error_handling [of "[[''a'', ''b''], [''c'']]" 1509000000000 init]
    by (simp add: t cache_def repartition_Suc_0 rdd_count_def init_def)
qed

end
